theory Spec2Isabelle
  imports Main "HOL-Library.Sublist"
begin

section \<open>Values\<close>

text \<open>
  The library is TypeScript; at run time its values are untyped JavaScript values. The
  payload of \<open>Some\<close>, \<open>Ok\<close> and \<open>Err\<close> is any value, \<open>null\<close> and
  \<open>undefined\<close> included (\<open>fromUndefinable(null)\<close> is \<open>Some(null)\<close>), and
  payloads nest (\<open>Option<Result<T, E>>\<close>, \<open>Option<Option<T>>\<close>).

  \<open>SomeV v\<close> is the object built by \<open>Some(v)\<close>, that is
  \<open>mixin(new SomeClass(v), optionImpl)\<close>, whose own property \<open>value\<close> holds
  \<open>v\<close>; \<open>NoneV\<close> is the exported constant \<open>None\<close>; \<open>OkV\<close> and
  \<open>ErrV\<close> are built by \<open>Ok\<close> and \<open>Err\<close>. \<open>Arr\<close> is the array that
  \<open>zip\<close> builds. Numbers are restricted to integers: no operation of the library
  computes with them.

  Equality of values is equality of these terms: same variant and equal payloads.
\<close>

datatype val =
    Undefined
  | Null
  | Bool bool
  | Num int
  | Str string
  | Arr "val list"
  | SomeV val
  | NoneV
  | OkV val
  | ErrV val

text \<open>
  A call either returns or throws. \<open>TypeError\<close> is what JavaScript throws when a
  property of \<open>undefined\<close> or \<open>null\<close> is read or when something that is not a
  function is called; \<open>Thrown v\<close> is an exception raised by a callback.
\<close>

datatype error = TypeError | Thrown val

definition bnd :: "error + 'a \<Rightarrow> ('a \<Rightarrow> error + 'b) \<Rightarrow> error + 'b" where
  "bnd m k = (case m of Inl e \<Rightarrow> Inl e | Inr x \<Rightarrow> k x)"

section \<open>The proxy: \<open>mixin\<close> (src/util.ts)\<close>

text \<open>
  \<^verbatim>\<open>new Proxy(object, { get: (target, key) => target[key] ?? trait[key] })\<close>

  Every property read on an Option or a Result goes through this \<open>get\<close> trap.
  \<open>a ?? b\<close> is \<open>b\<close> when \<open>a\<close> is \<open>null\<close> or \<open>undefined\<close>, and \<open>a\<close>
  otherwise.
\<close>

definition nullish_coalescing :: "val \<Rightarrow> val \<Rightarrow> val" where
  "nullish_coalescing a b = (if a = Undefined \<or> a = Null then b else a)"

text \<open>
  \<open>target.value\<close>: the own property that the constructors of \<open>Some\<close>,
  \<open>Ok\<close> and \<open>Err\<close> set (\<open>constructor(readonly value: T)\<close>). The class
  \<open>None\<close> has no such property, so the read gives \<open>undefined\<close>.
\<close>

fun target_value :: "val \<Rightarrow> val" where
  "target_value (SomeV v) = v"
| "target_value (OkV v) = v"
| "target_value (ErrV v) = v"
| "target_value _ = Undefined"

text \<open>
  \<open>trait.value\<close>: neither \<open>OptionImpl\<close> nor \<open>ResultImpl\<close> has a member
  \<open>value\<close>.
\<close>

definition trait_value :: val where
  "trait_value = Undefined"

text \<open>
  \<open>x.value\<close>. On a proxy it is the \<open>get\<close> trap at the key \<open>value\<close>; on
  \<open>undefined\<close> and \<open>null\<close> the read throws; any other value has no property
  \<open>value\<close>.
\<close>

fun get_value :: "val \<Rightarrow> error + val" where
  "get_value Undefined = Inl TypeError"
| "get_value Null = Inl TypeError"
| "get_value (SomeV v) = Inr (nullish_coalescing (target_value (SomeV v)) trait_value)"
| "get_value NoneV = Inr (nullish_coalescing (target_value NoneV) trait_value)"
| "get_value (OkV v) = Inr (nullish_coalescing (target_value (OkV v)) trait_value)"
| "get_value (ErrV v) = Inr (nullish_coalescing (target_value (ErrV v)) trait_value)"
| "get_value _ = Inr Undefined"

section \<open>The variant classes (src/option/some.ts, none.ts; src/result/ok.ts, err.ts)\<close>

text \<open>
  \<open>x.isSome()\<close>: the trap finds the method on the target (\<open>Some\<close> returns
  \<open>true\<close>, \<open>None\<close> returns \<open>false\<close>); a function is never nullish, so the
  method of the trait is never reached. On any other value the property is missing (or
  its read throws) and the call is a \<open>TypeError\<close>.
\<close>

fun isSome :: "val \<Rightarrow> error + bool" where
  "isSome (SomeV v) = Inr True"
| "isSome NoneV = Inr False"
| "isSome _ = Inl TypeError"

fun isNone :: "val \<Rightarrow> error + bool" where
  "isNone (SomeV v) = Inr False"
| "isNone NoneV = Inr True"
| "isNone _ = Inl TypeError"

fun isOk :: "val \<Rightarrow> error + bool" where
  "isOk (OkV v) = Inr True"
| "isOk (ErrV e) = Inr False"
| "isOk _ = Inl TypeError"

fun isErr :: "val \<Rightarrow> error + bool" where
  "isErr (OkV v) = Inr False"
| "isErr (ErrV e) = Inr True"
| "isErr _ = Inl TypeError"

section \<open>\<open>OptionImpl\<close> (src/option/impl.ts)\<close>

text \<open>
  Each method is a function of its receiver \<open>this\<close> and its arguments. A callback
  is a function that returns or throws; a callback without parameters takes \<open>()\<close>.
\<close>

text \<open>\<^verbatim>\<open>return this.isSome() ? this.value : def;\<close>\<close>

definition OptionImpl_unwrapOr :: "val \<Rightarrow> val \<Rightarrow> error + val" where
  "OptionImpl_unwrapOr this def =
     bnd (isSome this) (\<lambda>b. if b then get_value this else Inr def)"

text \<open>\<^verbatim>\<open>return this.isSome() ? this.value : f();\<close>\<close>

definition OptionImpl_unwrapOrElse :: "val \<Rightarrow> (unit \<Rightarrow> error + val) \<Rightarrow> error + val" where
  "OptionImpl_unwrapOrElse this f =
     bnd (isSome this) (\<lambda>b. if b then get_value this else f ())"

text \<open>\<^verbatim>\<open>return this.isSome() ? Some(f(this.value)) : None;\<close>\<close>

definition OptionImpl_map :: "val \<Rightarrow> (val \<Rightarrow> error + val) \<Rightarrow> error + val" where
  "OptionImpl_map this f =
     bnd (isSome this) (\<lambda>b.
       if b then bnd (get_value this) (\<lambda>v. bnd (f v) (\<lambda>u. Inr (SomeV u)))
       else Inr NoneV)"

text \<open>\<^verbatim>\<open>return this.isSome() ? f(this.value) : def;\<close>\<close>

definition OptionImpl_mapOr :: "val \<Rightarrow> val \<Rightarrow> (val \<Rightarrow> error + val) \<Rightarrow> error + val" where
  "OptionImpl_mapOr this def f =
     bnd (isSome this) (\<lambda>b. if b then bnd (get_value this) f else Inr def)"

text \<open>\<^verbatim>\<open>return this.isSome() ? f(this.value) : def();\<close>\<close>

definition OptionImpl_mapOrElse ::
  "val \<Rightarrow> (unit \<Rightarrow> error + val) \<Rightarrow> (val \<Rightarrow> error + val) \<Rightarrow> error + val" where
  "OptionImpl_mapOrElse this def f =
     bnd (isSome this) (\<lambda>b. if b then bnd (get_value this) f else def ())"

text \<open>\<^verbatim>\<open>return this.isSome() ? Ok(this.value) : Err(err);\<close>\<close>

definition OptionImpl_okOr :: "val \<Rightarrow> val \<Rightarrow> error + val" where
  "OptionImpl_okOr this err =
     bnd (isSome this) (\<lambda>b.
       if b then bnd (get_value this) (\<lambda>v. Inr (OkV v)) else Inr (ErrV err))"

text \<open>\<^verbatim>\<open>return this.isSome() ? Ok(this.value) : Err(err());\<close>\<close>

definition OptionImpl_okOrElse :: "val \<Rightarrow> (unit \<Rightarrow> error + val) \<Rightarrow> error + val" where
  "OptionImpl_okOrElse this err =
     bnd (isSome this) (\<lambda>b.
       if b then bnd (get_value this) (\<lambda>v. Inr (OkV v))
       else bnd (err ()) (\<lambda>e. Inr (ErrV e)))"

text \<open>\<^verbatim>\<open>return this.isSome() ? optb : this;\<close>\<close>

definition OptionImpl_and :: "val \<Rightarrow> val \<Rightarrow> error + val" where
  "OptionImpl_and this optb = bnd (isSome this) (\<lambda>b. if b then Inr optb else Inr this)"

text \<open>\<^verbatim>\<open>return this.isSome() ? f(this.value) : this;\<close>\<close>

definition OptionImpl_andThen :: "val \<Rightarrow> (val \<Rightarrow> error + val) \<Rightarrow> error + val" where
  "OptionImpl_andThen this f =
     bnd (isSome this) (\<lambda>b. if b then bnd (get_value this) f else Inr this)"

text \<open>
  The condition of a JavaScript conditional is converted to a boolean: \<open>false\<close>,
  \<open>0\<close>, the empty string, \<open>null\<close> and \<open>undefined\<close> count as false.
\<close>

fun truthy :: "val \<Rightarrow> bool" where
  "truthy Undefined = False"
| "truthy Null = False"
| "truthy (Bool b) = b"
| "truthy (Num n) = (n \<noteq> 0)"
| "truthy (Str s) = (s \<noteq> [])"
| "truthy _ = True"

text \<open>\<^verbatim>\<open>return this.isSome() && predicate(this.value) ? this : None;\<close>\<close>

definition OptionImpl_filter :: "val \<Rightarrow> (val \<Rightarrow> error + val) \<Rightarrow> error + val" where
  "OptionImpl_filter this predicate =
     bnd (isSome this) (\<lambda>b.
       if b then bnd (get_value this) (\<lambda>v. bnd (predicate v) (\<lambda>p.
         if truthy p then Inr this else Inr NoneV))
       else Inr NoneV)"

text \<open>\<^verbatim>\<open>return this.isSome() ? this : optb;\<close>\<close>

definition OptionImpl_or :: "val \<Rightarrow> val \<Rightarrow> error + val" where
  "OptionImpl_or this optb = bnd (isSome this) (\<lambda>b. if b then Inr this else Inr optb)"

text \<open>\<^verbatim>\<open>return this.isSome() ? this : f();\<close>\<close>

definition OptionImpl_orElse :: "val \<Rightarrow> (unit \<Rightarrow> error + val) \<Rightarrow> error + val" where
  "OptionImpl_orElse this f = bnd (isSome this) (\<lambda>b. if b then Inr this else f ())"

text \<open>
  \<^verbatim>\<open>
  if (this.isSome() && optb.isNone()) { return this; }
  if (this.isNone() && optb.isSome()) { return optb; }
  return None;
  \<close>
  \<open>&&\<close> does not evaluate its right operand when the left one is false.
\<close>

definition OptionImpl_xor :: "val \<Rightarrow> val \<Rightarrow> error + val" where
  "OptionImpl_xor this optb =
     bnd (isSome this) (\<lambda>a.
     bnd (if a then isNone optb else Inr False) (\<lambda>c.
       if c then Inr this
       else
         bnd (isNone this) (\<lambda>d.
         bnd (if d then isSome optb else Inr False) (\<lambda>e.
           if e then Inr optb else Inr NoneV))))"

text \<open>
  \<^verbatim>\<open>
  return this.isSome() && other.isSome()
    ? Some([this.value, other.value])
    : None;
  \<close>
\<close>

definition OptionImpl_zip :: "val \<Rightarrow> val \<Rightarrow> error + val" where
  "OptionImpl_zip this other =
     bnd (isSome this) (\<lambda>a.
     bnd (if a then isSome other else Inr False) (\<lambda>c.
       if c then
         bnd (get_value this) (\<lambda>v.
         bnd (get_value other) (\<lambda>w. Inr (SomeV (Arr [v, w]))))
       else Inr NoneV))"

text \<open>
  \<^verbatim>\<open>
  if (this.isSome()) {
    return this.value.isOk()
      ? Ok(Some(this.value.value))
      : Err(this.value.value);
  }
  return Ok(None);
  \<close>
\<close>

definition OptionImpl_transpose :: "val \<Rightarrow> error + val" where
  "OptionImpl_transpose this =
     bnd (isSome this) (\<lambda>b.
       if b then
         bnd (get_value this) (\<lambda>r.
         bnd (isOk r) (\<lambda>c.
           if c then bnd (get_value this) (\<lambda>r'. bnd (get_value r') (\<lambda>v. Inr (OkV (SomeV v))))
           else bnd (get_value this) (\<lambda>r'. bnd (get_value r') (\<lambda>e. Inr (ErrV e)))))
       else Inr (OkV NoneV))"

text \<open>\<^verbatim>\<open>return this.isSome() ? this.value : this;\<close>\<close>

definition OptionImpl_flatten :: "val \<Rightarrow> error + val" where
  "OptionImpl_flatten this = bnd (isSome this) (\<lambda>b. if b then get_value this else Inr this)"

text \<open>\<^verbatim>\<open>return typeof value === 'undefined' ? None : Some(value);\<close>\<close>

definition fromUndefinable :: "val \<Rightarrow> val" where
  "fromUndefinable v = (if v = Undefined then NoneV else SomeV v)"

text \<open>\<^verbatim>\<open>return value === null ? None : Some(value);\<close>\<close>

definition fromNullable :: "val \<Rightarrow> val" where
  "fromNullable v = (if v = Null then NoneV else SomeV v)"

section \<open>\<open>ResultImpl\<close> (src/result/impl.ts)\<close>

text \<open>\<^verbatim>\<open>return this.isOk() ? Some(this.value) : None;\<close>\<close>

definition ResultImpl_ok :: "val \<Rightarrow> error + val" where
  "ResultImpl_ok this =
     bnd (isOk this) (\<lambda>b. if b then bnd (get_value this) (\<lambda>v. Inr (SomeV v)) else Inr NoneV)"

text \<open>\<^verbatim>\<open>return this.isOk() ? None : Some(this.value);\<close>\<close>

definition ResultImpl_err :: "val \<Rightarrow> error + val" where
  "ResultImpl_err this =
     bnd (isOk this) (\<lambda>b. if b then Inr NoneV else bnd (get_value this) (\<lambda>e. Inr (SomeV e)))"

text \<open>\<^verbatim>\<open>return this.isOk() ? Ok(op(this.value)) : this;\<close>\<close>

definition ResultImpl_map :: "val \<Rightarrow> (val \<Rightarrow> error + val) \<Rightarrow> error + val" where
  "ResultImpl_map this op =
     bnd (isOk this) (\<lambda>b.
       if b then bnd (get_value this) (\<lambda>v. bnd (op v) (\<lambda>u. Inr (OkV u)))
       else Inr this)"

text \<open>\<^verbatim>\<open>return this.isOk() ? f(this.value) : def;\<close>\<close>

definition ResultImpl_mapOr :: "val \<Rightarrow> val \<Rightarrow> (val \<Rightarrow> error + val) \<Rightarrow> error + val" where
  "ResultImpl_mapOr this def f =
     bnd (isOk this) (\<lambda>b. if b then bnd (get_value this) f else Inr def)"

text \<open>\<^verbatim>\<open>return this.isOk() ? f(this.value) : def(this.value);\<close>\<close>

definition ResultImpl_mapOrElse ::
  "val \<Rightarrow> (val \<Rightarrow> error + val) \<Rightarrow> (val \<Rightarrow> error + val) \<Rightarrow> error + val" where
  "ResultImpl_mapOrElse this def f =
     bnd (isOk this) (\<lambda>b. if b then bnd (get_value this) f else bnd (get_value this) def)"

text \<open>\<^verbatim>\<open>return this.isOk() ? this : Err(op(this.value));\<close>\<close>

definition ResultImpl_mapErr :: "val \<Rightarrow> (val \<Rightarrow> error + val) \<Rightarrow> error + val" where
  "ResultImpl_mapErr this op =
     bnd (isOk this) (\<lambda>b.
       if b then Inr this
       else bnd (get_value this) (\<lambda>e. bnd (op e) (\<lambda>u. Inr (ErrV u))))"

text \<open>\<^verbatim>\<open>return this.isOk() ? res : this;\<close>\<close>

definition ResultImpl_and :: "val \<Rightarrow> val \<Rightarrow> error + val" where
  "ResultImpl_and this res = bnd (isOk this) (\<lambda>b. if b then Inr res else Inr this)"

text \<open>\<^verbatim>\<open>return this.isOk() ? op(this.value) : this;\<close>\<close>

definition ResultImpl_andThen :: "val \<Rightarrow> (val \<Rightarrow> error + val) \<Rightarrow> error + val" where
  "ResultImpl_andThen this op =
     bnd (isOk this) (\<lambda>b. if b then bnd (get_value this) op else Inr this)"

text \<open>\<^verbatim>\<open>return this.isOk() ? this : res;\<close>\<close>

definition ResultImpl_or :: "val \<Rightarrow> val \<Rightarrow> error + val" where
  "ResultImpl_or this res = bnd (isOk this) (\<lambda>b. if b then Inr this else Inr res)"

text \<open>\<^verbatim>\<open>return this.isOk() ? this : op(this.value);\<close>\<close>

definition ResultImpl_orElse :: "val \<Rightarrow> (val \<Rightarrow> error + val) \<Rightarrow> error + val" where
  "ResultImpl_orElse this op =
     bnd (isOk this) (\<lambda>b. if b then Inr this else bnd (get_value this) op)"

text \<open>\<^verbatim>\<open>return this.isOk() ? this.value : def;\<close>\<close>

definition ResultImpl_unwrapOr :: "val \<Rightarrow> val \<Rightarrow> error + val" where
  "ResultImpl_unwrapOr this def =
     bnd (isOk this) (\<lambda>b. if b then get_value this else Inr def)"

text \<open>\<^verbatim>\<open>return this.isOk() ? this.value : op(this.value);\<close>\<close>

definition ResultImpl_unwrapOrElse :: "val \<Rightarrow> (val \<Rightarrow> error + val) \<Rightarrow> error + val" where
  "ResultImpl_unwrapOrElse this op =
     bnd (isOk this) (\<lambda>b. if b then get_value this else bnd (get_value this) op)"

text \<open>
  \<^verbatim>\<open>
  if (this.isOk()) {
    return this.value.isSome() ? Some(Ok(this.value.value)) : None;
  }
  return Some(Err(this.value));
  \<close>
\<close>

definition ResultImpl_transpose :: "val \<Rightarrow> error + val" where
  "ResultImpl_transpose this =
     bnd (isOk this) (\<lambda>b.
       if b then
         bnd (get_value this) (\<lambda>opt.
         bnd (isSome opt) (\<lambda>c.
           if c then bnd (get_value this) (\<lambda>opt'. bnd (get_value opt') (\<lambda>v. Inr (SomeV (OkV v))))
           else Inr NoneV))
       else bnd (get_value this) (\<lambda>e. Inr (SomeV (ErrV e))))"

section \<open>Objects in a store\<close>

text \<open>
  The terms above identify an object with its contents. Whether a call changes its
  receiver is a question about an object that stays the same object while its contents
  may change; for it the same code is read over a store. A value is a primitive or a
  reference; \<open>new SomeClass(v)\<close> (and the proxy around it) puts a new object at the
  next free address. The module constant \<open>None\<close> is created once, when the module
  is loaded: it is the object at \<open>None_addr\<close>.
\<close>

type_synonym addr = nat

datatype rval = RUndefined | RNull | RBool bool | RNum int | RStr string | Ref addr

datatype obj = SomeObj rval | NoneObj | OkObj rval | ErrObj rval | ArrObj "rval list"

type_synonym store = "obj list"

datatype serror = STypeError | SThrown rval

text \<open>A computation takes the store and gives a result or an exception, and the store after it.\<close>

type_synonym 'a st = "store \<Rightarrow> (serror + 'a) \<times> store"

definition sret :: "'a \<Rightarrow> 'a st" where
  "sret x s = (Inr x, s)"

definition sthrow :: "serror \<Rightarrow> 'a st" where
  "sthrow e s = (Inl e, s)"

definition sbnd :: "'a st \<Rightarrow> ('a \<Rightarrow> 'b st) \<Rightarrow> 'b st" where
  "sbnd m k s = (case m s of (Inl e, s') \<Rightarrow> (Inl e, s') | (Inr x, s') \<Rightarrow> k x s')"

definition alloc :: "obj \<Rightarrow> rval st" where
  "alloc ob s = (Inr (Ref (length s)), s @ [ob])"

definition None_addr :: addr where
  "None_addr = 0"

definition init_store :: store where
  "init_store = [NoneObj]"

text \<open>The object a value refers to, if it is a reference into the store.\<close>

fun obj_at :: "store \<Rightarrow> rval \<Rightarrow> obj option" where
  "obj_at s (Ref a) = (if a < length s then Some (s ! a) else None)"
| "obj_at s _ = None"

text \<open>\<open>Some(value)\<close>, \<open>Ok(value)\<close>, \<open>Err(value)\<close> and the array literal.\<close>

definition new_Some :: "rval \<Rightarrow> rval st" where
  "new_Some v = alloc (SomeObj v)"

definition new_Ok :: "rval \<Rightarrow> rval st" where
  "new_Ok v = alloc (OkObj v)"

definition new_Err :: "rval \<Rightarrow> rval st" where
  "new_Err v = alloc (ErrObj v)"

definition new_Arr :: "rval list \<Rightarrow> rval st" where
  "new_Arr vs = alloc (ArrObj vs)"

definition the_None :: rval where
  "the_None = Ref None_addr"

text \<open>The \<open>get\<close> trap of \<open>mixin\<close> at the key \<open>value\<close>, over the store.\<close>

definition rnullish_coalescing :: "rval \<Rightarrow> rval \<Rightarrow> rval" where
  "rnullish_coalescing a b = (if a = RUndefined \<or> a = RNull then b else a)"

fun obj_target_value :: "obj \<Rightarrow> rval" where
  "obj_target_value (SomeObj v) = v"
| "obj_target_value (OkObj v) = v"
| "obj_target_value (ErrObj v) = v"
| "obj_target_value _ = RUndefined"

fun read_value :: "store \<Rightarrow> rval \<Rightarrow> serror + rval" where
  "read_value s RUndefined = Inl STypeError"
| "read_value s RNull = Inl STypeError"
| "read_value s (Ref a) =
     (case obj_at s (Ref a) of
        None \<Rightarrow> Inl STypeError
      | Some (ArrObj vs) \<Rightarrow> Inr RUndefined
      | Some ob \<Rightarrow> Inr (rnullish_coalescing (obj_target_value ob) RUndefined))"
| "read_value s _ = Inr RUndefined"

definition st_get_value :: "rval \<Rightarrow> rval st" where
  "st_get_value x s = (read_value s x, s)"

text \<open>The discriminators of the variant classes, over the store.\<close>

definition st_isSome :: "rval \<Rightarrow> bool st" where
  "st_isSome x s =
     ((case obj_at s x of
         Some (SomeObj v) \<Rightarrow> Inr True
       | Some NoneObj \<Rightarrow> Inr False
       | _ \<Rightarrow> Inl STypeError), s)"

definition st_isNone :: "rval \<Rightarrow> bool st" where
  "st_isNone x s =
     ((case obj_at s x of
         Some (SomeObj v) \<Rightarrow> Inr False
       | Some NoneObj \<Rightarrow> Inr True
       | _ \<Rightarrow> Inl STypeError), s)"

definition st_isOk :: "rval \<Rightarrow> bool st" where
  "st_isOk x s =
     ((case obj_at s x of
         Some (OkObj v) \<Rightarrow> Inr True
       | Some (ErrObj e) \<Rightarrow> Inr False
       | _ \<Rightarrow> Inl STypeError), s)"

definition st_isErr :: "rval \<Rightarrow> bool st" where
  "st_isErr x s =
     ((case obj_at s x of
         Some (OkObj v) \<Rightarrow> Inr False
       | Some (ErrObj e) \<Rightarrow> Inr True
       | _ \<Rightarrow> Inl STypeError), s)"

fun rtruthy :: "rval \<Rightarrow> bool" where
  "rtruthy RUndefined = False"
| "rtruthy RNull = False"
| "rtruthy (RBool b) = b"
| "rtruthy (RNum n) = (n \<noteq> 0)"
| "rtruthy (RStr s) = (s \<noteq> [])"
| "rtruthy (Ref a) = True"

subsection \<open>\<open>OptionImpl\<close> over the store\<close>

text \<open>
  Each definition reads the method body quoted at the definition of the same name above.
  No method body holds an assignment; \<open>Some(...)\<close>, \<open>Ok(...)\<close>, \<open>Err(...)\<close>
  and the array literal of \<open>zip\<close> create objects, in the order JavaScript
  evaluates them (the argument before the constructor); \<open>None\<close> is the reference to
  the one shared object; \<open>this\<close>, \<open>optb\<close>, \<open>res\<close> and \<open>this.value\<close>
  are returned as they are.
\<close>

definition st_OptionImpl_unwrapOr :: "rval \<Rightarrow> rval \<Rightarrow> rval st" where
  "st_OptionImpl_unwrapOr this def =
     sbnd (st_isSome this) (\<lambda>b. if b then st_get_value this else sret def)"

definition st_OptionImpl_unwrapOrElse :: "rval \<Rightarrow> (unit \<Rightarrow> rval st) \<Rightarrow> rval st" where
  "st_OptionImpl_unwrapOrElse this f =
     sbnd (st_isSome this) (\<lambda>b. if b then st_get_value this else f ())"

definition st_OptionImpl_map :: "rval \<Rightarrow> (rval \<Rightarrow> rval st) \<Rightarrow> rval st" where
  "st_OptionImpl_map this f =
     sbnd (st_isSome this) (\<lambda>b.
       if b then sbnd (st_get_value this) (\<lambda>v. sbnd (f v) new_Some)
       else sret the_None)"

definition st_OptionImpl_mapOr :: "rval \<Rightarrow> rval \<Rightarrow> (rval \<Rightarrow> rval st) \<Rightarrow> rval st" where
  "st_OptionImpl_mapOr this def f =
     sbnd (st_isSome this) (\<lambda>b. if b then sbnd (st_get_value this) f else sret def)"

definition st_OptionImpl_mapOrElse ::
  "rval \<Rightarrow> (unit \<Rightarrow> rval st) \<Rightarrow> (rval \<Rightarrow> rval st) \<Rightarrow> rval st" where
  "st_OptionImpl_mapOrElse this def f =
     sbnd (st_isSome this) (\<lambda>b. if b then sbnd (st_get_value this) f else def ())"

definition st_OptionImpl_okOr :: "rval \<Rightarrow> rval \<Rightarrow> rval st" where
  "st_OptionImpl_okOr this err =
     sbnd (st_isSome this) (\<lambda>b.
       if b then sbnd (st_get_value this) new_Ok else new_Err err)"

definition st_OptionImpl_okOrElse :: "rval \<Rightarrow> (unit \<Rightarrow> rval st) \<Rightarrow> rval st" where
  "st_OptionImpl_okOrElse this err =
     sbnd (st_isSome this) (\<lambda>b.
       if b then sbnd (st_get_value this) new_Ok else sbnd (err ()) new_Err)"

definition st_OptionImpl_and :: "rval \<Rightarrow> rval \<Rightarrow> rval st" where
  "st_OptionImpl_and this optb =
     sbnd (st_isSome this) (\<lambda>b. if b then sret optb else sret this)"

definition st_OptionImpl_andThen :: "rval \<Rightarrow> (rval \<Rightarrow> rval st) \<Rightarrow> rval st" where
  "st_OptionImpl_andThen this f =
     sbnd (st_isSome this) (\<lambda>b. if b then sbnd (st_get_value this) f else sret this)"

definition st_OptionImpl_filter :: "rval \<Rightarrow> (rval \<Rightarrow> rval st) \<Rightarrow> rval st" where
  "st_OptionImpl_filter this predicate =
     sbnd (st_isSome this) (\<lambda>b.
       if b then sbnd (st_get_value this) (\<lambda>v. sbnd (predicate v) (\<lambda>p.
         if rtruthy p then sret this else sret the_None))
       else sret the_None)"

definition st_OptionImpl_or :: "rval \<Rightarrow> rval \<Rightarrow> rval st" where
  "st_OptionImpl_or this optb =
     sbnd (st_isSome this) (\<lambda>b. if b then sret this else sret optb)"

definition st_OptionImpl_orElse :: "rval \<Rightarrow> (unit \<Rightarrow> rval st) \<Rightarrow> rval st" where
  "st_OptionImpl_orElse this f =
     sbnd (st_isSome this) (\<lambda>b. if b then sret this else f ())"

definition st_OptionImpl_xor :: "rval \<Rightarrow> rval \<Rightarrow> rval st" where
  "st_OptionImpl_xor this optb =
     sbnd (st_isSome this) (\<lambda>a.
     sbnd (if a then st_isNone optb else sret False) (\<lambda>c.
       if c then sret this
       else
         sbnd (st_isNone this) (\<lambda>d.
         sbnd (if d then st_isSome optb else sret False) (\<lambda>e.
           if e then sret optb else sret the_None))))"

definition st_OptionImpl_zip :: "rval \<Rightarrow> rval \<Rightarrow> rval st" where
  "st_OptionImpl_zip this other =
     sbnd (st_isSome this) (\<lambda>a.
     sbnd (if a then st_isSome other else sret False) (\<lambda>c.
       if c then
         sbnd (st_get_value this) (\<lambda>v.
         sbnd (st_get_value other) (\<lambda>w.
         sbnd (new_Arr [v, w]) new_Some))
       else sret the_None))"

definition st_OptionImpl_transpose :: "rval \<Rightarrow> rval st" where
  "st_OptionImpl_transpose this =
     sbnd (st_isSome this) (\<lambda>b.
       if b then
         sbnd (st_get_value this) (\<lambda>r.
         sbnd (st_isOk r) (\<lambda>c.
           if c then
             sbnd (st_get_value this) (\<lambda>r'.
             sbnd (st_get_value r') (\<lambda>v.
             sbnd (new_Some v) new_Ok))
           else
             sbnd (st_get_value this) (\<lambda>r'.
             sbnd (st_get_value r') new_Err)))
       else sbnd (sret the_None) new_Ok)"

definition st_OptionImpl_flatten :: "rval \<Rightarrow> rval st" where
  "st_OptionImpl_flatten this =
     sbnd (st_isSome this) (\<lambda>b. if b then st_get_value this else sret this)"

subsection \<open>\<open>ResultImpl\<close> over the store\<close>

definition st_ResultImpl_ok :: "rval \<Rightarrow> rval st" where
  "st_ResultImpl_ok this =
     sbnd (st_isOk this) (\<lambda>b. if b then sbnd (st_get_value this) new_Some else sret the_None)"

definition st_ResultImpl_err :: "rval \<Rightarrow> rval st" where
  "st_ResultImpl_err this =
     sbnd (st_isOk this) (\<lambda>b. if b then sret the_None else sbnd (st_get_value this) new_Some)"

definition st_ResultImpl_map :: "rval \<Rightarrow> (rval \<Rightarrow> rval st) \<Rightarrow> rval st" where
  "st_ResultImpl_map this op =
     sbnd (st_isOk this) (\<lambda>b.
       if b then sbnd (st_get_value this) (\<lambda>v. sbnd (op v) new_Ok) else sret this)"

definition st_ResultImpl_mapOr :: "rval \<Rightarrow> rval \<Rightarrow> (rval \<Rightarrow> rval st) \<Rightarrow> rval st" where
  "st_ResultImpl_mapOr this def f =
     sbnd (st_isOk this) (\<lambda>b. if b then sbnd (st_get_value this) f else sret def)"

definition st_ResultImpl_mapOrElse ::
  "rval \<Rightarrow> (rval \<Rightarrow> rval st) \<Rightarrow> (rval \<Rightarrow> rval st) \<Rightarrow> rval st" where
  "st_ResultImpl_mapOrElse this def f =
     sbnd (st_isOk this) (\<lambda>b.
       if b then sbnd (st_get_value this) f else sbnd (st_get_value this) def)"

definition st_ResultImpl_mapErr :: "rval \<Rightarrow> (rval \<Rightarrow> rval st) \<Rightarrow> rval st" where
  "st_ResultImpl_mapErr this op =
     sbnd (st_isOk this) (\<lambda>b.
       if b then sret this else sbnd (st_get_value this) (\<lambda>e. sbnd (op e) new_Err))"

definition st_ResultImpl_and :: "rval \<Rightarrow> rval \<Rightarrow> rval st" where
  "st_ResultImpl_and this res =
     sbnd (st_isOk this) (\<lambda>b. if b then sret res else sret this)"

definition st_ResultImpl_andThen :: "rval \<Rightarrow> (rval \<Rightarrow> rval st) \<Rightarrow> rval st" where
  "st_ResultImpl_andThen this op =
     sbnd (st_isOk this) (\<lambda>b. if b then sbnd (st_get_value this) op else sret this)"

definition st_ResultImpl_or :: "rval \<Rightarrow> rval \<Rightarrow> rval st" where
  "st_ResultImpl_or this res =
     sbnd (st_isOk this) (\<lambda>b. if b then sret this else sret res)"

definition st_ResultImpl_orElse :: "rval \<Rightarrow> (rval \<Rightarrow> rval st) \<Rightarrow> rval st" where
  "st_ResultImpl_orElse this op =
     sbnd (st_isOk this) (\<lambda>b. if b then sret this else sbnd (st_get_value this) op)"

definition st_ResultImpl_unwrapOr :: "rval \<Rightarrow> rval \<Rightarrow> rval st" where
  "st_ResultImpl_unwrapOr this def =
     sbnd (st_isOk this) (\<lambda>b. if b then st_get_value this else sret def)"

definition st_ResultImpl_unwrapOrElse :: "rval \<Rightarrow> (rval \<Rightarrow> rval st) \<Rightarrow> rval st" where
  "st_ResultImpl_unwrapOrElse this op =
     sbnd (st_isOk this) (\<lambda>b. if b then st_get_value this else sbnd (st_get_value this) op)"

definition st_ResultImpl_transpose :: "rval \<Rightarrow> rval st" where
  "st_ResultImpl_transpose this =
     sbnd (st_isOk this) (\<lambda>b.
       if b then
         sbnd (st_get_value this) (\<lambda>opt.
         sbnd (st_isSome opt) (\<lambda>c.
           if c then
             sbnd (st_get_value this) (\<lambda>opt'.
             sbnd (st_get_value opt') (\<lambda>v.
             sbnd (new_Ok v) new_Some))
           else sret the_None))
       else sbnd (st_get_value this) (\<lambda>e. sbnd (new_Err e) new_Some))"

subsection \<open>Method calls\<close>

text \<open>
  A method call \<open>x.m(args)\<close> on a proxy: the name of the method with its arguments.
  The \<open>get\<close> trap finds the discriminators on the target and every other method on
  the trait. \<open>O_\<close> marks the methods an Option answers (those of \<open>Some\<close>,
  \<open>None\<close> and \<open>OptionImpl\<close>), \<open>R_\<close> those a Result answers. A callback
  is any function of its argument and the store: it may create objects, and nothing in
  the language keeps it from writing to one (\<open>readonly\<close> is checked by the
  compiler only, and the proxy has no \<open>set\<close> trap).
\<close>

datatype call =
    O_isSome | O_isNone
  | O_unwrapOr rval | O_unwrapOrElse "unit \<Rightarrow> rval st"
  | O_map "rval \<Rightarrow> rval st" | O_mapOr rval "rval \<Rightarrow> rval st"
  | O_mapOrElse "unit \<Rightarrow> rval st" "rval \<Rightarrow> rval st"
  | O_okOr rval | O_okOrElse "unit \<Rightarrow> rval st"
  | O_and rval | O_andThen "rval \<Rightarrow> rval st" | O_filter "rval \<Rightarrow> rval st"
  | O_or rval | O_orElse "unit \<Rightarrow> rval st" | O_xor rval | O_zip rval
  | O_transpose | O_flatten
  | R_isOk | R_isErr | R_ok | R_err
  | R_map "rval \<Rightarrow> rval st" | R_mapOr rval "rval \<Rightarrow> rval st"
  | R_mapOrElse "rval \<Rightarrow> rval st" "rval \<Rightarrow> rval st" | R_mapErr "rval \<Rightarrow> rval st"
  | R_and rval | R_andThen "rval \<Rightarrow> rval st" | R_or rval | R_orElse "rval \<Rightarrow> rval st"
  | R_unwrapOr rval | R_unwrapOrElse "rval \<Rightarrow> rval st" | R_transpose

fun invoke :: "rval \<Rightarrow> call \<Rightarrow> rval st" where
  "invoke this O_isSome = sbnd (st_isSome this) (\<lambda>b. sret (RBool b))"
| "invoke this O_isNone = sbnd (st_isNone this) (\<lambda>b. sret (RBool b))"
| "invoke this (O_unwrapOr def) = st_OptionImpl_unwrapOr this def"
| "invoke this (O_unwrapOrElse f) = st_OptionImpl_unwrapOrElse this f"
| "invoke this (O_map f) = st_OptionImpl_map this f"
| "invoke this (O_mapOr def f) = st_OptionImpl_mapOr this def f"
| "invoke this (O_mapOrElse def f) = st_OptionImpl_mapOrElse this def f"
| "invoke this (O_okOr err) = st_OptionImpl_okOr this err"
| "invoke this (O_okOrElse err) = st_OptionImpl_okOrElse this err"
| "invoke this (O_and optb) = st_OptionImpl_and this optb"
| "invoke this (O_andThen f) = st_OptionImpl_andThen this f"
| "invoke this (O_filter predicate) = st_OptionImpl_filter this predicate"
| "invoke this (O_or optb) = st_OptionImpl_or this optb"
| "invoke this (O_orElse f) = st_OptionImpl_orElse this f"
| "invoke this (O_xor optb) = st_OptionImpl_xor this optb"
| "invoke this (O_zip other) = st_OptionImpl_zip this other"
| "invoke this O_transpose = st_OptionImpl_transpose this"
| "invoke this O_flatten = st_OptionImpl_flatten this"
| "invoke this R_isOk = sbnd (st_isOk this) (\<lambda>b. sret (RBool b))"
| "invoke this R_isErr = sbnd (st_isErr this) (\<lambda>b. sret (RBool b))"
| "invoke this R_ok = st_ResultImpl_ok this"
| "invoke this R_err = st_ResultImpl_err this"
| "invoke this (R_map op) = st_ResultImpl_map this op"
| "invoke this (R_mapOr def f) = st_ResultImpl_mapOr this def f"
| "invoke this (R_mapOrElse def f) = st_ResultImpl_mapOrElse this def f"
| "invoke this (R_mapErr op) = st_ResultImpl_mapErr this op"
| "invoke this (R_and res) = st_ResultImpl_and this res"
| "invoke this (R_andThen op) = st_ResultImpl_andThen this op"
| "invoke this (R_or res) = st_ResultImpl_or this res"
| "invoke this (R_orElse op) = st_ResultImpl_orElse this op"
| "invoke this (R_unwrapOr def) = st_ResultImpl_unwrapOr this def"
| "invoke this (R_unwrapOrElse op) = st_ResultImpl_unwrapOrElse this op"
| "invoke this R_transpose = st_ResultImpl_transpose this"

text \<open>
  A computation keeps a property of the store when the property, if it holds before the
  computation, holds after it, whether the computation returns or throws.
\<close>

definition keeps :: "(store \<Rightarrow> bool) \<Rightarrow> 'a st \<Rightarrow> bool" where
  "keeps P m = (\<forall>s. P s \<longrightarrow> P (snd (m s)))"

text \<open>The callbacks that a call passes keep the property.\<close>

fun callbacks_keep :: "(store \<Rightarrow> bool) \<Rightarrow> call \<Rightarrow> bool" where
  "callbacks_keep P (O_unwrapOrElse f) = keeps P (f ())"
| "callbacks_keep P (O_map f) = (\<forall>v. keeps P (f v))"
| "callbacks_keep P (O_mapOr def f) = (\<forall>v. keeps P (f v))"
| "callbacks_keep P (O_mapOrElse def f) = (keeps P (def ()) \<and> (\<forall>v. keeps P (f v)))"
| "callbacks_keep P (O_okOrElse err) = keeps P (err ())"
| "callbacks_keep P (O_andThen f) = (\<forall>v. keeps P (f v))"
| "callbacks_keep P (O_filter predicate) = (\<forall>v. keeps P (predicate v))"
| "callbacks_keep P (O_orElse f) = keeps P (f ())"
| "callbacks_keep P (R_map op) = (\<forall>v. keeps P (op v))"
| "callbacks_keep P (R_mapOr def f) = (\<forall>v. keeps P (f v))"
| "callbacks_keep P (R_mapOrElse def f) = ((\<forall>v. keeps P (def v)) \<and> (\<forall>v. keeps P (f v)))"
| "callbacks_keep P (R_mapErr op) = (\<forall>v. keeps P (op v))"
| "callbacks_keep P (R_andThen op) = (\<forall>v. keeps P (op v))"
| "callbacks_keep P (R_orElse op) = (\<forall>v. keeps P (op v))"
| "callbacks_keep P (R_unwrapOrElse op) = (\<forall>v. keeps P (op v))"
| "callbacks_keep P _ = True"

text \<open>
  The property of a store that the object \<open>x\<close> refers to is \<open>ob\<close>: it has the
  variant and the payload of \<open>ob\<close>.
\<close>

definition object_is :: "rval \<Rightarrow> obj \<Rightarrow> store \<Rightarrow> bool" where
  "object_is x ob s = (obj_at s x = Some ob)"

text \<open>A property that creating an object does not undo.\<close>

definition append_stable :: "(store \<Rightarrow> bool) \<Rightarrow> bool" where
  "append_stable P = (\<forall>s ob. P s \<longrightarrow> P (s @ [ob]))"

section \<open>Evaluation lemmas\<close>

lemma bnd_simps [simp]: "bnd (Inl e) k = Inl e" "bnd (Inr x) k = k x"
  by (simp_all add: bnd_def)

text \<open>
  What the proxy's \<open>get\<close> trap gives for \<open>value\<close>: the payload, but
  \<open>undefined\<close> when the payload is \<open>null\<close>.
\<close>

lemma nullish_coalescing_trait_value [simp]:
  "nullish_coalescing a trait_value = (if a = Null then Undefined else a)"
  by (simp add: nullish_coalescing_def trait_value_def)

section \<open>Discriminators\<close>

text \<open>
  C3. For every Option value, \<open>Some(v)\<close> and \<open>None\<close>, exactly one of
  \<open>isSome()\<close> and \<open>isNone()\<close> returns \<open>true\<close>; for every Result value,
  \<open>Ok(v)\<close> and \<open>Err(e)\<close>, exactly one of \<open>isOk()\<close> and \<open>isErr()\<close>
  returns \<open>true\<close>. Both calls return a boolean, and the two booleans differ.
\<close>

theorem discriminators_exclusive:
  "isSome (SomeV v) = Inr True \<and> isNone (SomeV v) = Inr False
   \<and> isSome NoneV = Inr False \<and> isNone NoneV = Inr True
   \<and> isOk (OkV v) = Inr True \<and> isErr (OkV v) = Inr False
   \<and> isOk (ErrV e) = Inr False \<and> isErr (ErrV e) = Inr True"
  by simp

section \<open>\<open>andThen\<close>\<close>

text \<open>
  C2. Associativity of \<open>andThen\<close>: \<open>x.andThen(f).andThen(g)\<close> equals
  \<open>x.andThen(v => f(v).andThen(g))\<close>, for Option and for Result. It holds for every
  receiver and all callbacks, also callbacks that throw: both sides then throw the same
  exception.
\<close>

theorem andThen_associative:
  "bnd (OptionImpl_andThen x f) (\<lambda>y. OptionImpl_andThen y g)
     = OptionImpl_andThen x (\<lambda>v. bnd (f v) (\<lambda>y. OptionImpl_andThen y g))
   \<and> bnd (ResultImpl_andThen r f) (\<lambda>y. ResultImpl_andThen y g)
     = ResultImpl_andThen r (\<lambda>v. bnd (f v) (\<lambda>y. ResultImpl_andThen y g))"
proof
  show "bnd (OptionImpl_andThen x f) (\<lambda>y. OptionImpl_andThen y g)
     = OptionImpl_andThen x (\<lambda>v. bnd (f v) (\<lambda>y. OptionImpl_andThen y g))"
    by (cases x) (simp_all add: OptionImpl_andThen_def)
  show "bnd (ResultImpl_andThen r f) (\<lambda>y. ResultImpl_andThen y g)
     = ResultImpl_andThen r (\<lambda>v. bnd (f v) (\<lambda>y. ResultImpl_andThen y g))"
    by (cases r) (simp_all add: ResultImpl_andThen_def)
qed

text \<open>
  Binding with the constructor \<open>Some\<close> gives back \<open>None\<close>, and \<open>Some(w)\<close>
  for every payload \<open>w\<close> but \<open>null\<close>.
\<close>

lemma andThen_Some_identity:
  "OptionImpl_andThen NoneV (\<lambda>v. Inr (SomeV v)) = Inr NoneV"
  "w \<noteq> Null \<Longrightarrow> OptionImpl_andThen (SomeV w) (\<lambda>v. Inr (SomeV v)) = Inr (SomeV w)"
  by (simp_all add: OptionImpl_andThen_def)

text \<open>
  C10. Right identity: \<open>x.andThen(v => Some(v))\<close> equals \<open>x\<close>. The code differs at
  \<open>x = Some(null)\<close>: \<open>this.value\<close> is read through the proxy, whose \<open>??\<close>
  turns the payload \<open>null\<close> into \<open>undefined\<close>, and the call returns
  \<open>Some(undefined)\<close>.
\<close>

theorem andThen_Some_null_payload:
  "OptionImpl_andThen (SomeV Null) (\<lambda>v. Inr (SomeV v)) = Inr (SomeV Undefined)
   \<and> SomeV Undefined \<noteq> SomeV Null"
  by (simp add: OptionImpl_andThen_def)

section \<open>\<open>flatten\<close> and \<open>xor\<close>\<close>

text \<open>
  C8. \<open>flatten\<close> removes exactly one nesting level: \<open>Some(Some(v))\<close> gives
  \<open>Some(v)\<close>, \<open>Some(None)\<close> gives \<open>None\<close>, \<open>None\<close> gives \<open>None\<close>;
  \<open>Some(Some(Some(6)))\<close> gives \<open>Some(Some(6))\<close>, and \<open>Some(6)\<close> when
  flattened twice.
\<close>

theorem flatten_one_level:
  "OptionImpl_flatten (SomeV (SomeV v)) = Inr (SomeV v)
   \<and> OptionImpl_flatten (SomeV NoneV) = Inr NoneV
   \<and> OptionImpl_flatten NoneV = Inr NoneV
   \<and> OptionImpl_flatten (SomeV (SomeV (SomeV (Num 6)))) = Inr (SomeV (SomeV (Num 6)))
   \<and> bnd (OptionImpl_flatten (SomeV (SomeV (SomeV (Num 6))))) OptionImpl_flatten
       = Inr (SomeV (Num 6))"
  by (simp add: OptionImpl_flatten_def)

text \<open>
  C9. \<open>xor\<close>: when exactly one of the receiver and \<open>optb\<close> is \<open>Some\<close> the call
  returns that one; when both are \<open>Some\<close> or both are \<open>None\<close> it returns
  \<open>None\<close>, whatever the payloads. \<open>Some(2).xor(Some(2))\<close> is \<open>None\<close> and
  \<open>Some(2).xor(None)\<close> is \<open>Some(2)\<close>.
\<close>

theorem xor_truth_table:
  "OptionImpl_xor (SomeV a) NoneV = Inr (SomeV a)
   \<and> OptionImpl_xor NoneV (SomeV b) = Inr (SomeV b)
   \<and> OptionImpl_xor (SomeV a) (SomeV b) = Inr NoneV
   \<and> OptionImpl_xor NoneV NoneV = Inr NoneV
   \<and> OptionImpl_xor (SomeV (Num 2)) (SomeV (Num 2)) = Inr NoneV
   \<and> OptionImpl_xor (SomeV (Num 2)) NoneV = Inr (SomeV (Num 2))"
  by (simp add: OptionImpl_xor_def)

section \<open>Transposition\<close>

text \<open>
  What the two transpositions return for payloads that are not \<open>null\<close>, and the
  round trip on those.
\<close>

lemma OptionImpl_transpose_cases:
  "OptionImpl_transpose NoneV = Inr (OkV NoneV)"
  "v \<noteq> Null \<Longrightarrow> OptionImpl_transpose (SomeV (OkV v)) = Inr (OkV (SomeV v))"
  "e \<noteq> Null \<Longrightarrow> OptionImpl_transpose (SomeV (ErrV e)) = Inr (ErrV e)"
  by (simp_all add: OptionImpl_transpose_def)

lemma ResultImpl_transpose_cases:
  "ResultImpl_transpose (OkV NoneV) = Inr NoneV"
  "v \<noteq> Null \<Longrightarrow> ResultImpl_transpose (OkV (SomeV v)) = Inr (SomeV (OkV v))"
  "e \<noteq> Null \<Longrightarrow> ResultImpl_transpose (ErrV e) = Inr (SomeV (ErrV e))"
  "ResultImpl_transpose (OkV (SomeV (Num 5))) = Inr (SomeV (OkV (Num 5)))"
  by (simp_all add: ResultImpl_transpose_def)

lemma transpose_round_trip_not_null:
  "bnd (OptionImpl_transpose NoneV) ResultImpl_transpose = Inr NoneV"
  "v \<noteq> Null \<Longrightarrow>
     bnd (OptionImpl_transpose (SomeV (OkV v))) ResultImpl_transpose = Inr (SomeV (OkV v))"
  "e \<noteq> Null \<Longrightarrow>
     bnd (OptionImpl_transpose (SomeV (ErrV e))) ResultImpl_transpose = Inr (SomeV (ErrV e))"
  by (simp_all add: OptionImpl_transpose_def ResultImpl_transpose_def)

text \<open>
  C1. \<open>Option.transpose\<close> maps \<open>Some(Ok(v))\<close> to \<open>Ok(Some(v))\<close> and
  \<open>Some(Err(e))\<close> to \<open>Err(e)\<close>, \<open>Result.transpose\<close> maps \<open>Err(e)\<close> to
  \<open>Some(Err(e))\<close>, and \<open>Option.transpose\<close> followed by \<open>Result.transpose\<close>
  returns the original. The code differs when the inner payload is \<open>null\<close>:
  \<open>this.value.value\<close> is read through the proxy, which gives \<open>undefined\<close> for a
  \<open>null\<close> payload, so \<open>Some(Ok(null))\<close> goes to \<open>Ok(Some(undefined))\<close> and
  comes back as \<open>Some(Ok(undefined))\<close>.
\<close>

theorem transpose_null_payload:
  "OptionImpl_transpose (SomeV (OkV Null)) = Inr (OkV (SomeV Undefined))
   \<and> OptionImpl_transpose (SomeV (ErrV Null)) = Inr (ErrV Undefined)
   \<and> ResultImpl_transpose (ErrV Null) = Inr (SomeV (ErrV Undefined))
   \<and> bnd (OptionImpl_transpose (SomeV (OkV Null))) ResultImpl_transpose
       = Inr (SomeV (OkV Undefined))
   \<and> SomeV (OkV Undefined) \<noteq> SomeV (OkV Null)"
  by (simp add: OptionImpl_transpose_def ResultImpl_transpose_def)

section \<open>Fallbacks of Result\<close>

text \<open>
  For payloads that are not \<open>null\<close>: \<open>unwrapOrElse\<close> returns the value of
  \<open>Ok\<close> and applies the callback to the error of \<open>Err\<close>; \<open>mapOrElse\<close>
  applies \<open>f\<close> to the value and \<open>defFn\<close> to the error.
\<close>

lemma ResultImpl_fallbacks_not_null:
  "v \<noteq> Null \<Longrightarrow> ResultImpl_unwrapOrElse (OkV v) f = Inr v"
  "e \<noteq> Null \<Longrightarrow> ResultImpl_unwrapOrElse (ErrV e) f = f e"
  "v \<noteq> Null \<Longrightarrow> ResultImpl_mapOrElse (OkV v) defFn f = f v"
  "e \<noteq> Null \<Longrightarrow> ResultImpl_mapOrElse (ErrV e) defFn f = defFn e"
  by (simp_all add: ResultImpl_unwrapOrElse_def ResultImpl_mapOrElse_def)

text \<open>
  C4. \<open>unwrapOrElse(f)\<close> returns \<open>v\<close> on \<open>Ok(v)\<close> and \<open>f(e)\<close> on
  \<open>Err(e)\<close>; \<open>mapOrElse(defFn, f)\<close> returns \<open>f(v)\<close> on \<open>Ok(v)\<close> and
  \<open>defFn(e)\<close> on \<open>Err(e)\<close>. The code differs when the payload is \<open>null\<close>:
  \<open>Ok(null).unwrapOrElse(f)\<close> returns \<open>undefined\<close>, and on \<open>Err(null)\<close> the
  fallback is applied to \<open>undefined\<close>, so a fallback that tests its argument for
  \<open>null\<close> answers no.
\<close>

theorem ResultImpl_fallbacks_null_payload:
  "ResultImpl_unwrapOrElse (OkV Null) f = Inr Undefined
   \<and> ResultImpl_unwrapOrElse (ErrV Null) f = f Undefined
   \<and> ResultImpl_mapOrElse (OkV Null) defFn f = f Undefined
   \<and> ResultImpl_mapOrElse (ErrV Null) defFn f = defFn Undefined
   \<and> ResultImpl_unwrapOrElse (ErrV Null) (\<lambda>e. Inr (Bool (e = Null))) = Inr (Bool False)"
  by (simp add: ResultImpl_unwrapOrElse_def ResultImpl_mapOrElse_def)

section \<open>Laziness\<close>

text \<open>
  The callback is not called when the variant of the receiver does not need it: the
  result is the same for every callback, also one that throws. For a payload that is
  not \<open>null\<close>, \<open>unwrapOrElse\<close> returns the payload.
\<close>

lemma callbacks_not_needed:
  "OptionImpl_unwrapOrElse (SomeV v) f = OptionImpl_unwrapOrElse (SomeV v) g"
  "OptionImpl_orElse (SomeV v) f = Inr (SomeV v)"
  "OptionImpl_orElse (SomeV v) g = Inr (SomeV v)"
  "OptionImpl_andThen NoneV h = Inr NoneV"
  "OptionImpl_andThen NoneV k = Inr NoneV"
  "v \<noteq> Null \<Longrightarrow> OptionImpl_unwrapOrElse (SomeV v) f = Inr v"
  by (simp_all add: OptionImpl_unwrapOrElse_def OptionImpl_orElse_def OptionImpl_andThen_def)

text \<open>The adapter \<open>fromUndefinable\<close> builds \<open>Some(null)\<close> from \<open>null\<close>.\<close>

lemma fromUndefinable_null: "fromUndefinable Null = SomeV Null"
  by (simp add: fromUndefinable_def)

text \<open>
  C5. \<open>Some(v).unwrapOrElse(f) == Some(v).unwrapOrElse(g) == v\<close>,
  \<open>Some(v).orElse(f) == Some(v).orElse(g) == Some(v)\<close> and
  \<open>None.andThen(f) == None.andThen(g) == None\<close>, for every \<open>v\<close> and all
  callbacks. The code differs at \<open>v = null\<close>: \<open>Some(null).unwrapOrElse(f)\<close>
  returns \<open>undefined\<close>, for every \<open>f\<close>.
\<close>

theorem unwrapOrElse_null_payload:
  "OptionImpl_unwrapOrElse (SomeV Null) f = Inr Undefined \<and> Undefined \<noteq> Null"
  by (simp add: OptionImpl_unwrapOrElse_def)

section \<open>Option to Result\<close>

text \<open>
  \<open>okOr\<close> and \<open>okOrElse\<close> on a payload that is not \<open>null\<close> and on
  \<open>None\<close>; the result is an \<open>Err\<close> for \<open>None\<close> and never for \<open>Some\<close>.
\<close>

lemma okOr_cases:
  "v \<noteq> Null \<Longrightarrow> OptionImpl_okOr (SomeV v) err = Inr (OkV v)"
  "OptionImpl_okOr NoneV err = Inr (ErrV err)"
  "v \<noteq> Null \<Longrightarrow> OptionImpl_okOrElse (SomeV v) errFn = Inr (OkV v)"
  "OptionImpl_okOrElse NoneV errFn = bnd (errFn ()) (\<lambda>e. Inr (ErrV e))"
  by (simp_all add: OptionImpl_okOr_def OptionImpl_okOrElse_def)

lemma okOr_Err_only_on_None:
  "OptionImpl_okOr (SomeV v) err \<noteq> Inr (ErrV e)"
  "OptionImpl_okOrElse (SomeV v) errFn \<noteq> Inr (ErrV e)"
  by (simp_all add: OptionImpl_okOr_def OptionImpl_okOrElse_def)

text \<open>
  C6. \<open>okOr(err)\<close> and \<open>okOrElse(errFn)\<close> return \<open>Ok(v)\<close> when the receiver
  is \<open>Some(v)\<close>, and \<open>Err(err)\<close>, \<open>Err(errFn())\<close> when it is \<open>None\<close>.
  The code differs at \<open>Some(null)\<close>: both return \<open>Ok(undefined)\<close>.
\<close>

theorem okOr_null_payload:
  "OptionImpl_okOr (SomeV Null) err = Inr (OkV Undefined)
   \<and> OptionImpl_okOrElse (SomeV Null) errFn = Inr (OkV Undefined)
   \<and> OkV Undefined \<noteq> OkV Null"
  by (simp add: OptionImpl_okOr_def OptionImpl_okOrElse_def)

section \<open>Receivers are not changed\<close>

lemma keeps_sret [intro!, simp]: "keeps P (sret x)"
  by (simp add: keeps_def sret_def)

lemma keeps_sthrow [intro!, simp]: "keeps P (sthrow e)"
  by (simp add: keeps_def sthrow_def)

lemma keeps_alloc [intro!]: "append_stable P \<Longrightarrow> keeps P (alloc ob)"
  by (simp add: keeps_def alloc_def append_stable_def)

lemma keeps_sbnd [intro!]:
  assumes "keeps P m" and "\<And>x. keeps P (k x)"
  shows "keeps P (sbnd m k)"
  unfolding keeps_def
proof (intro allI impI)
  fix s
  assume "P s"
  with assms(1) have 1: "P (snd (m s))" by (simp add: keeps_def)
  show "P (snd (sbnd m k s))"
  proof (cases "m s")
    case (Pair r s')
    show ?thesis
    proof (cases r)
      case (Inl e)
      with Pair 1 show ?thesis by (simp add: sbnd_def)
    next
      case (Inr x)
      from Pair 1 have "P s'" by simp
      with assms(2) have "P (snd (k x s'))" by (simp add: keeps_def)
      with Pair Inr show ?thesis by (simp add: sbnd_def)
    qed
  qed
qed

lemma keeps_if [intro!]: "keeps P a \<Longrightarrow> keeps P b \<Longrightarrow> keeps P (if c then a else b)"
  by simp

lemma keeps_reads [intro!, simp]:
  "keeps P (st_isSome x)" "keeps P (st_isNone x)" "keeps P (st_isOk x)"
  "keeps P (st_isErr x)" "keeps P (st_get_value x)"
  by (simp_all add: keeps_def st_isSome_def st_isNone_def st_isOk_def st_isErr_def
      st_get_value_def)

lemma keeps_new [intro!]:
  "append_stable P \<Longrightarrow> keeps P (new_Some v)"
  "append_stable P \<Longrightarrow> keeps P (new_Ok v)"
  "append_stable P \<Longrightarrow> keeps P (new_Err v)"
  "append_stable P \<Longrightarrow> keeps P (new_Arr vs)"
  by (auto simp: new_Some_def new_Ok_def new_Err_def new_Arr_def)

lemmas st_defs = st_OptionImpl_unwrapOr_def st_OptionImpl_unwrapOrElse_def st_OptionImpl_map_def
  st_OptionImpl_mapOr_def st_OptionImpl_mapOrElse_def st_OptionImpl_okOr_def
  st_OptionImpl_okOrElse_def st_OptionImpl_and_def st_OptionImpl_andThen_def
  st_OptionImpl_filter_def st_OptionImpl_or_def st_OptionImpl_orElse_def st_OptionImpl_xor_def
  st_OptionImpl_zip_def st_OptionImpl_transpose_def st_OptionImpl_flatten_def
  st_ResultImpl_ok_def st_ResultImpl_err_def st_ResultImpl_map_def st_ResultImpl_mapOr_def
  st_ResultImpl_mapOrElse_def st_ResultImpl_mapErr_def st_ResultImpl_and_def
  st_ResultImpl_andThen_def st_ResultImpl_or_def st_ResultImpl_orElse_def
  st_ResultImpl_unwrapOr_def st_ResultImpl_unwrapOrElse_def st_ResultImpl_transpose_def

lemmas eval_defs = sbnd_def sret_def alloc_def new_Some_def new_Ok_def new_Err_def new_Arr_def
  st_isSome_def st_isNone_def st_isOk_def st_isErr_def st_get_value_def the_None_def None_addr_def
  rnullish_coalescing_def

text \<open>
  The steps of a method themselves only read the store and create objects: whatever
  the callbacks keep, and creating an object does not undo, the call keeps.
\<close>

lemma keeps_invoke:
  assumes "append_stable P" and "callbacks_keep P c"
  shows "keeps P (invoke this c)"
  using assms by (cases c) (auto simp: st_defs)

lemma append_stable_object_is: "append_stable (object_is x ob)"
  by (cases x) (auto simp: append_stable_def object_is_def nth_append split: if_splits)

lemma append_stable_prefix: "append_stable (prefix s0)"
  by (simp add: append_stable_def)

text \<open>
  With callbacks that only create objects, a call only creates objects: the store after
  it is the store before it, followed by the new objects.
\<close>

lemma combinators_only_allocate:
  assumes "\<And>s0. callbacks_keep (prefix s0) c"
  shows "prefix s (snd (invoke this c s))"
proof -
  from assms have "keeps (prefix s) (invoke this c)"
    by (intro keeps_invoke append_stable_prefix)
  then show ?thesis by (simp add: keeps_def)
qed

text \<open>
  C7, as the code has it. For every receiver, every method of Option and of Result and
  every store: if the callbacks passed to the method leave the receiver as it is, the
  receiver has the same variant and the same payload after the call as before it, also
  when the call throws. What a callback does to other objects does not matter.
\<close>

theorem receiver_unchanged:
  assumes "callbacks_keep (object_is this ob) c" and "object_is this ob s"
  shows "object_is this ob (snd (invoke this c s))"
proof -
  from assms(1) have "keeps (object_is this ob) (invoke this c)"
    by (intro keeps_invoke append_stable_object_is)
  with assms(2) show ?thesis by (simp add: keeps_def)
qed

text \<open>The store after the module is loaded and \<open>Some(2)\<close> is evaluated.\<close>

lemma store_after_Some_2:
  "new_Some (RNum 2) init_store = (Inr (Ref 1), [NoneObj, SomeObj (RNum 2)])"
  by (simp add: new_Some_def alloc_def init_store_def)

text \<open>
  \<open>Some(2).map(v => { log[0] = v; return 3; })\<close>, with the array \<open>log\<close> at
  address 2: the callback writes to \<open>log\<close> and not to the receiver; the call creates
  \<open>Some(3)\<close> and the receiver is \<open>Some(2)\<close> as before.
\<close>

theorem receiver_unchanged_witness:
  "callbacks_keep (object_is (Ref 1) (SomeObj (RNum 2)))
     (O_map (\<lambda>v s. (Inr (RNum 3), s[2 := ArrObj [v]])))
   \<and> object_is (Ref 1) (SomeObj (RNum 2)) [NoneObj, SomeObj (RNum 2), ArrObj []]
   \<and> invoke (Ref 1) (O_map (\<lambda>v s. (Inr (RNum 3), s[2 := ArrObj [v]])))
        [NoneObj, SomeObj (RNum 2), ArrObj []]
       = (Inr (Ref 3), [NoneObj, SomeObj (RNum 2), ArrObj [RNum 2], SomeObj (RNum 3)])
   \<and> object_is (Ref 1) (SomeObj (RNum 2))
        (snd (invoke (Ref 1) (O_map (\<lambda>v s. (Inr (RNum 3), s[2 := ArrObj [v]])))
           [NoneObj, SomeObj (RNum 2), ArrObj []]))"
proof -
  have cb: "callbacks_keep (object_is (Ref 1) (SomeObj (RNum 2)))
     (O_map (\<lambda>v s. (Inr (RNum 3), s[2 := ArrObj [v]])))"
    by (simp add: keeps_def object_is_def)
  have ob: "object_is (Ref 1) (SomeObj (RNum 2)) [NoneObj, SomeObj (RNum 2), ArrObj []]"
    by (simp add: object_is_def)
  have ev: "invoke (Ref 1) (O_map (\<lambda>v s. (Inr (RNum 3), s[2 := ArrObj [v]])))
        [NoneObj, SomeObj (RNum 2), ArrObj []]
       = (Inr (Ref 3), [NoneObj, SomeObj (RNum 2), ArrObj [RNum 2], SomeObj (RNum 3)])"
    by (simp add: st_OptionImpl_map_def eval_defs)
  from receiver_unchanged [OF cb ob] cb ob ev show ?thesis by simp
qed

text \<open>
  C7, as stated, speaks of every combinator call. With \<open>x = Some(2)\<close>,
  \<open>x.map(v => { x.value = 9; return v; })\<close> is a call after which the payload of the
  receiver is 9: nothing at run time keeps the callback from writing to the receiver.
\<close>

theorem writing_callback_changes_receiver:
  "object_is (Ref 1) (SomeObj (RNum 2)) [NoneObj, SomeObj (RNum 2)]
   \<and> invoke (Ref 1) (O_map (\<lambda>v s. (Inr v, s[1 := SomeObj (RNum 9)]))) [NoneObj, SomeObj (RNum 2)]
       = (Inr (Ref 2), [NoneObj, SomeObj (RNum 9), SomeObj (RNum 2)])
   \<and> \<not> object_is (Ref 1) (SomeObj (RNum 2))
        (snd (invoke (Ref 1) (O_map (\<lambda>v s. (Inr v, s[1 := SomeObj (RNum 9)])))
           [NoneObj, SomeObj (RNum 2)]))"
  by (simp add: st_OptionImpl_map_def eval_defs object_is_def)

end
